theory Spec2Isabelle
  imports Main "HOL-Library.Sublist"
begin

section \<open>Screenshot capture runners\<close>

text \<open>
  The repository holds two scripts, each a straight line of calls into the Playwright
  browser-automation library:
  \<^item> \<^verbatim>\<open>jules-scratch/verification/verify_animation.py\<close> (synchronous API, function \<^verbatim>\<open>run\<close>);
  \<^item> \<^verbatim>\<open>verify.py\<close> (asynchronous API, coroutine \<^verbatim>\<open>main\<close>).

  A call into the library either returns or raises. Which calls raise, and what the
  server delivers, is decided outside the scripts: it is the environment \<open>env\<close>. The
  effect of the calls on the outside world (browser processes, pages, files) is the
  state \<open>world\<close>, passed explicitly. An exception is the \<open>Inl\<close> branch of a sum.
\<close>

subsection \<open>Calls, errors and the outside world\<close>

datatype browser_type = Chromium | Firefox | Webkit

text \<open>
  The calls the scripts make inside the \<^verbatim>\<open>with\<close> block, with their arguments.
  \<open>Launch\<close> carries the keyword arguments of \<^verbatim>\<open>launch(...)\<close>; \<open>Wait_for_timeout\<close> is in
  milliseconds (\<^verbatim>\<open>page.wait_for_timeout\<close>), \<open>Sleep\<close> in seconds (\<^verbatim>\<open>asyncio.sleep\<close>).
\<close>

datatype call =
    Launch browser_type "(string \<times> string) list"
  | New_page
  | Goto string
  | Evaluate string
  | Wait_for_timeout nat
  | Sleep nat
  | Screenshot string
  | Close

datatype error = Driver_error | Error call

datatype playwright = Playwright

record page =
  owner :: nat
  location :: "string option"
  document :: string
  scripts :: "string list"
  settled_ms :: nat

datatype image = Png page

text \<open>
  What the scripts do not control. \<open>argv\<close> and \<open>environ\<close> are the command line and the
  environment variables of the process; \<open>start_fails\<close> says whether the automation
  driver fails to start, \<open>fails c\<close> whether the call \<open>c\<close> raises, and \<open>serves url\<close> is the
  document delivered at \<open>url\<close>.
\<close>

record env =
  argv :: "string list"
  environ :: "string \<rightharpoonup> string"
  start_fails :: bool
  fails :: "call \<Rightarrow> bool"
  serves :: "string \<Rightarrow> string"

text \<open>
  \<open>trace\<close> lists the calls issued so far, oldest first, a raising call included.
  \<open>browsers\<close> are the live browser processes, \<open>pages\<close> the open pages, \<open>files\<close> the
  filesystem (relative paths are kept as written).
\<close>

record world =
  trace :: "call list"
  driver :: bool
  browsers :: "nat list"
  pages :: "nat \<rightharpoonup> page"
  files :: "string \<rightharpoonup> image"
  next_id :: nat

type_synonym 'a io = "world \<Rightarrow> (error + 'a) \<times> world"

definition and_then :: "'a io \<Rightarrow> ('a \<Rightarrow> 'b io) \<Rightarrow> 'b io" where
  "and_then m k w = (case m w of (Inl x, w') \<Rightarrow> (Inl x, w') | (Inr a, w') \<Rightarrow> k a w')"

text \<open>Every call is logged when it is issued; it raises when the environment says so.\<close>

definition issue :: "env \<Rightarrow> call \<Rightarrow> 'a io \<Rightarrow> 'a io" where
  "issue e c effect w =
     (let w' = w\<lparr>trace := trace w @ [c]\<rparr>
      in if fails e c then (Inl (Error c), w') else effect w')"

subsection \<open>The library calls\<close>

text \<open>
  Modelled from the spec: the effects of the Playwright calls, which are code of a
  third-party library. A launch starts one browser process; a new page belongs to its
  browser; navigation loads the document served at the URL; a script evaluated in the
  page is recorded in the page state; a delay lets time pass on every open page; a
  screenshot persists the current page state to the path, "overwriting any existing file
  at that path"; closing a browser ends its process and its pages. A call on a closed
  browser or page raises.
\<close>

definition launch :: "env \<Rightarrow> playwright \<Rightarrow> browser_type \<Rightarrow> (string \<times> string) list \<Rightarrow> nat io" where
  "launch e p bt kwargs =
     issue e (Launch bt kwargs) (\<lambda>w.
       if driver w
       then (Inr (next_id w), w\<lparr>browsers := next_id w # browsers w, next_id := Suc (next_id w)\<rparr>)
       else (Inl (Error (Launch bt kwargs)), w))"

definition new_page :: "env \<Rightarrow> nat \<Rightarrow> nat io" where
  "new_page e b =
     issue e New_page (\<lambda>w.
       if b \<in> set (browsers w)
       then (Inr (next_id w),
             w\<lparr>pages := (pages w)(next_id w \<mapsto>
                  \<lparr>owner = b, location = None, document = [], scripts = [], settled_ms = 0\<rparr>),
               next_id := Suc (next_id w)\<rparr>)
       else (Inl (Error New_page), w))"

definition goto :: "env \<Rightarrow> nat \<Rightarrow> string \<Rightarrow> unit io" where
  "goto e pg url =
     issue e (Goto url) (\<lambda>w.
       case pages w pg of
         None \<Rightarrow> (Inl (Error (Goto url)), w)
       | Some s \<Rightarrow> (Inr (), w\<lparr>pages := (pages w)(pg \<mapsto>
           s\<lparr>location := Some url, document := serves e url, scripts := [], settled_ms := 0\<rparr>)\<rparr>))"

definition evaluate :: "env \<Rightarrow> nat \<Rightarrow> string \<Rightarrow> unit io" where
  "evaluate e pg js =
     issue e (Evaluate js) (\<lambda>w.
       case pages w pg of
         None \<Rightarrow> (Inl (Error (Evaluate js)), w)
       | Some s \<Rightarrow> (Inr (), w\<lparr>pages := (pages w)(pg \<mapsto> s\<lparr>scripts := scripts s @ [js]\<rparr>)\<rparr>))"

definition elapse :: "nat \<Rightarrow> world \<Rightarrow> world" where
  "elapse ms w =
     w\<lparr>pages := (\<lambda>k. case pages w k of
                        None \<Rightarrow> None
                      | Some s \<Rightarrow> Some (s\<lparr>settled_ms := settled_ms s + ms\<rparr>))\<rparr>"

definition wait_for_timeout :: "env \<Rightarrow> nat \<Rightarrow> nat \<Rightarrow> unit io" where
  "wait_for_timeout e pg ms =
     issue e (Wait_for_timeout ms) (\<lambda>w.
       case pages w pg of
         None \<Rightarrow> (Inl (Error (Wait_for_timeout ms)), w)
       | Some s \<Rightarrow> (Inr (), elapse ms w))"

definition asyncio_sleep :: "env \<Rightarrow> nat \<Rightarrow> unit io" where
  "asyncio_sleep e secs = issue e (Sleep secs) (\<lambda>w. (Inr (), elapse (secs * 1000) w))"

definition screenshot :: "env \<Rightarrow> nat \<Rightarrow> string \<Rightarrow> unit io" where
  "screenshot e pg path =
     issue e (Screenshot path) (\<lambda>w.
       case pages w pg of
         None \<Rightarrow> (Inl (Error (Screenshot path)), w)
       | Some s \<Rightarrow> (Inr (), w\<lparr>files := (files w)(path \<mapsto> Png s)\<rparr>))"

definition close :: "env \<Rightarrow> nat \<Rightarrow> unit io" where
  "close e b =
     issue e Close (\<lambda>w.
       (Inr (), w\<lparr>browsers := removeAll b (browsers w),
                  pages := (\<lambda>k. case pages w k of
                                   None \<Rightarrow> None
                                 | Some s \<Rightarrow> if owner s = b then None else Some s)\<rparr>))"

text \<open>
  Modelled from the spec: the \<^verbatim>\<open>with sync_playwright()\<close> / \<^verbatim>\<open>async with
  async_playwright()\<close> block, "scoped: guaranteed release on all exit paths, success or
  failure". Entering starts the driver (or raises); leaving, normally or by an
  exception of the body, stops the driver and with it every browser it launched, and
  lets the body's exception pass.
\<close>

definition with_playwright :: "env \<Rightarrow> (playwright \<Rightarrow> 'a io) \<Rightarrow> 'a io" where
  "with_playwright e body w =
     (if start_fails e then (Inl Driver_error, w)
      else case body Playwright (w\<lparr>driver := True\<rparr>) of
             (r, w') \<Rightarrow> (r, w'\<lparr>driver := False, browsers := [], pages := Map.empty\<rparr>))"

text \<open>
  Modelled from the spec: a headless browser is what a launch without keyword
  arguments starts.
\<close>

definition headless :: "(string \<times> string) list \<Rightarrow> bool" where
  "headless kwargs = (case map_of kwargs ''headless'' of None \<Rightarrow> True | Some v \<Rightarrow> v = ''True'')"

subsection \<open>The process\<close>

text \<open>A fresh process on a given filesystem: nothing issued, no driver, no browser.\<close>

definition boot :: "(string \<rightharpoonup> image) \<Rightarrow> world" where
  "boot fs = \<lparr>trace = [], driver = False, browsers = [], pages = Map.empty, files = fs, next_id = 0\<rparr>"

text \<open>An exception that reaches the top level ends the Python process with status 1.\<close>

definition exit_status :: "error + unit \<Rightarrow> nat" where
  "exit_status r = (case r of Inl _ \<Rightarrow> 1 | Inr _ \<Rightarrow> 0)"

subsection \<open>\<^verbatim>\<open>verify_animation.py\<close>\<close>

definition run :: "env \<Rightarrow> playwright \<Rightarrow> unit io" where
  "run e playwright =
     and_then (launch e playwright Chromium []) (\<lambda>browser.
     and_then (new_page e browser) (\<lambda>page.
     and_then (goto e page ''http://localhost:8000'') (\<lambda>_.
     and_then (wait_for_timeout e page 5000) (\<lambda>_.
     and_then (screenshot e page ''jules-scratch/verification/verification.png'') (\<lambda>_.
     close e browser)))))"

definition verify_animation :: "env \<Rightarrow> (string \<rightharpoonup> image) \<Rightarrow> (error + unit) \<times> world" where
  "verify_animation e fs = with_playwright e (\<lambda>playwright. run e playwright) (boot fs)"

subsection \<open>\<^verbatim>\<open>verify.py\<close>\<close>

definition main :: "env \<Rightarrow> unit io" where
  "main e =
     with_playwright e (\<lambda>p.
       and_then (launch e p Chromium []) (\<lambda>browser.
       and_then (new_page e browser) (\<lambda>page.
       and_then (goto e page ''http://localhost:8000'') (\<lambda>_.
       and_then (evaluate e page ''window.scrollTo(0, 1000)'') (\<lambda>_.
       and_then (asyncio_sleep e 2) (\<lambda>_.
       and_then (screenshot e page ''verification.png'') (\<lambda>_.
       close e browser)))))))"

text \<open>\<^verbatim>\<open>asyncio.run\<close> runs the coroutine to its end and re-raises its exception.\<close>

definition asyncio_run :: "'a io \<Rightarrow> 'a io" where
  "asyncio_run coro = coro"

definition verify :: "env \<Rightarrow> (string \<rightharpoonup> image) \<Rightarrow> (error + unit) \<times> world" where
  "verify e fs = asyncio_run (main e) (boot fs)"

subsection \<open>Delays\<close>

text \<open>The pause a call makes, in milliseconds, when the call is a delay.\<close>

fun delay_ms :: "call \<Rightarrow> nat option" where
  "delay_ms (Wait_for_timeout ms) = Some ms"
| "delay_ms (Sleep secs) = Some (secs * 1000)"
| "delay_ms _ = None"

subsection \<open>Two environments\<close>

text \<open>A server that answers, and no server at all: navigation raises.\<close>

definition reachable :: env where
  "reachable = \<lparr>argv = [], environ = Map.empty, start_fails = False,
                 fails = (\<lambda>c. False), serves = (\<lambda>url. ''<html>'')\<rparr>"

definition unreachable :: env where
  "unreachable = \<lparr>argv = [], environ = Map.empty, start_fails = False,
                   fails = (\<lambda>c. c = Goto ''http://localhost:8000''), serves = (\<lambda>url. [])\<rparr>"

text \<open>
  A filesystem that already holds output of an earlier run at both output paths, next
  to an unrelated file; and a server that answers with another document.
\<close>

definition stale :: image where
  "stale = Png \<lparr>owner = 0, location = Some ''http://localhost:8000'', document = ''<old>'',
                 scripts = [], settled_ms = 0\<rparr>"

definition leftover :: "string \<rightharpoonup> image" where
  "leftover = [''jules-scratch/verification/verification.png'' \<mapsto> stale,
               ''verification.png'' \<mapsto> stale, ''other.png'' \<mapsto> stale]"

definition other_server :: env where
  "other_server = \<lparr>argv = [], environ = Map.empty, start_fails = False,
                    fails = (\<lambda>c. False), serves = (\<lambda>url. ''<p>other</p>'')\<rparr>"

section \<open>Properties\<close>

lemmas call_defs = launch_def new_page_def goto_def evaluate_def wait_for_timeout_def
  asyncio_sleep_def screenshot_def close_def issue_def and_then_def elapse_def Let_def

lemmas script_defs = verify_animation_def run_def verify_def main_def asyncio_run_def
  with_playwright_def boot_def

subsection \<open>The outcome of a run, by the first call that raises\<close>

text \<open>
  Each script has one exit per call: the first call that raises ends the body, the
  \<^verbatim>\<open>with\<close> block stops the driver, and the exception passes. The two lemmas list
  those exits, with the state each leaves.
\<close>

lemma verify_animation_result:
  "verify_animation e fs =
     (if start_fails e then
        (Inl Driver_error,
         \<lparr>trace = [],
          driver = False, browsers = [], pages = Map.empty, files = fs, next_id = 0\<rparr>)
      else if fails e (Launch Chromium []) then
        (Inl (Error (Launch Chromium [])),
         \<lparr>trace = [Launch Chromium []],
          driver = False, browsers = [], pages = Map.empty, files = fs, next_id = 0\<rparr>)
      else if fails e New_page then
        (Inl (Error New_page),
         \<lparr>trace = [Launch Chromium [], New_page],
          driver = False, browsers = [], pages = Map.empty, files = fs, next_id = 1\<rparr>)
      else if fails e (Goto ''http://localhost:8000'') then
        (Inl (Error (Goto ''http://localhost:8000'')),
         \<lparr>trace = [Launch Chromium [], New_page, Goto ''http://localhost:8000''],
          driver = False, browsers = [], pages = Map.empty, files = fs, next_id = 2\<rparr>)
      else if fails e (Wait_for_timeout 5000) then
        (Inl (Error (Wait_for_timeout 5000)),
         \<lparr>trace = [Launch Chromium [], New_page, Goto ''http://localhost:8000'',
                   Wait_for_timeout 5000],
          driver = False, browsers = [], pages = Map.empty, files = fs, next_id = 2\<rparr>)
      else if fails e (Screenshot ''jules-scratch/verification/verification.png'') then
        (Inl (Error (Screenshot ''jules-scratch/verification/verification.png'')),
         \<lparr>trace = [Launch Chromium [], New_page, Goto ''http://localhost:8000'',
                   Wait_for_timeout 5000,
                   Screenshot ''jules-scratch/verification/verification.png''],
          driver = False, browsers = [], pages = Map.empty, files = fs, next_id = 2\<rparr>)
      else
        (if fails e Close then Inl (Error Close) else Inr (),
         \<lparr>trace = [Launch Chromium [], New_page, Goto ''http://localhost:8000'',
                   Wait_for_timeout 5000,
                   Screenshot ''jules-scratch/verification/verification.png'', Close],
          driver = False, browsers = [], pages = Map.empty,
          files = fs(''jules-scratch/verification/verification.png'' \<mapsto>
            Png \<lparr>owner = 0, location = Some ''http://localhost:8000'',
                 document = serves e ''http://localhost:8000'', scripts = [],
                 settled_ms = 5000\<rparr>),
          next_id = 2\<rparr>))"
proof -
  consider
    "start_fails e"
  | "\<not> start_fails e" "fails e (Launch Chromium [])"
  | "\<not> start_fails e" "\<not> fails e (Launch Chromium [])" "fails e New_page"
  | "\<not> start_fails e" "\<not> fails e (Launch Chromium [])" "\<not> fails e New_page"
      "fails e (Goto ''http://localhost:8000'')"
  | "\<not> start_fails e" "\<not> fails e (Launch Chromium [])" "\<not> fails e New_page"
      "\<not> fails e (Goto ''http://localhost:8000'')" "fails e (Wait_for_timeout 5000)"
  | "\<not> start_fails e" "\<not> fails e (Launch Chromium [])" "\<not> fails e New_page"
      "\<not> fails e (Goto ''http://localhost:8000'')" "\<not> fails e (Wait_for_timeout 5000)"
      "fails e (Screenshot ''jules-scratch/verification/verification.png'')"
  | "\<not> start_fails e" "\<not> fails e (Launch Chromium [])" "\<not> fails e New_page"
      "\<not> fails e (Goto ''http://localhost:8000'')" "\<not> fails e (Wait_for_timeout 5000)"
      "\<not> fails e (Screenshot ''jules-scratch/verification/verification.png'')"
    by blast
  then show ?thesis
    by cases (simp_all add: script_defs call_defs)
qed

lemma verify_result:
  "verify e fs =
     (if start_fails e then
        (Inl Driver_error,
         \<lparr>trace = [],
          driver = False, browsers = [], pages = Map.empty, files = fs, next_id = 0\<rparr>)
      else if fails e (Launch Chromium []) then
        (Inl (Error (Launch Chromium [])),
         \<lparr>trace = [Launch Chromium []],
          driver = False, browsers = [], pages = Map.empty, files = fs, next_id = 0\<rparr>)
      else if fails e New_page then
        (Inl (Error New_page),
         \<lparr>trace = [Launch Chromium [], New_page],
          driver = False, browsers = [], pages = Map.empty, files = fs, next_id = 1\<rparr>)
      else if fails e (Goto ''http://localhost:8000'') then
        (Inl (Error (Goto ''http://localhost:8000'')),
         \<lparr>trace = [Launch Chromium [], New_page, Goto ''http://localhost:8000''],
          driver = False, browsers = [], pages = Map.empty, files = fs, next_id = 2\<rparr>)
      else if fails e (Evaluate ''window.scrollTo(0, 1000)'') then
        (Inl (Error (Evaluate ''window.scrollTo(0, 1000)'')),
         \<lparr>trace = [Launch Chromium [], New_page, Goto ''http://localhost:8000'',
                   Evaluate ''window.scrollTo(0, 1000)''],
          driver = False, browsers = [], pages = Map.empty, files = fs, next_id = 2\<rparr>)
      else if fails e (Sleep 2) then
        (Inl (Error (Sleep 2)),
         \<lparr>trace = [Launch Chromium [], New_page, Goto ''http://localhost:8000'',
                   Evaluate ''window.scrollTo(0, 1000)'', Sleep 2],
          driver = False, browsers = [], pages = Map.empty, files = fs, next_id = 2\<rparr>)
      else if fails e (Screenshot ''verification.png'') then
        (Inl (Error (Screenshot ''verification.png'')),
         \<lparr>trace = [Launch Chromium [], New_page, Goto ''http://localhost:8000'',
                   Evaluate ''window.scrollTo(0, 1000)'', Sleep 2,
                   Screenshot ''verification.png''],
          driver = False, browsers = [], pages = Map.empty, files = fs, next_id = 2\<rparr>)
      else
        (if fails e Close then Inl (Error Close) else Inr (),
         \<lparr>trace = [Launch Chromium [], New_page, Goto ''http://localhost:8000'',
                   Evaluate ''window.scrollTo(0, 1000)'', Sleep 2,
                   Screenshot ''verification.png'', Close],
          driver = False, browsers = [], pages = Map.empty,
          files = fs(''verification.png'' \<mapsto>
            Png \<lparr>owner = 0, location = Some ''http://localhost:8000'',
                 document = serves e ''http://localhost:8000'',
                 scripts = [''window.scrollTo(0, 1000)''], settled_ms = 2000\<rparr>),
          next_id = 2\<rparr>))"
proof -
  consider
    "start_fails e"
  | "\<not> start_fails e" "fails e (Launch Chromium [])"
  | "\<not> start_fails e" "\<not> fails e (Launch Chromium [])" "fails e New_page"
  | "\<not> start_fails e" "\<not> fails e (Launch Chromium [])" "\<not> fails e New_page"
      "fails e (Goto ''http://localhost:8000'')"
  | "\<not> start_fails e" "\<not> fails e (Launch Chromium [])" "\<not> fails e New_page"
      "\<not> fails e (Goto ''http://localhost:8000'')"
      "fails e (Evaluate ''window.scrollTo(0, 1000)'')"
  | "\<not> start_fails e" "\<not> fails e (Launch Chromium [])" "\<not> fails e New_page"
      "\<not> fails e (Goto ''http://localhost:8000'')"
      "\<not> fails e (Evaluate ''window.scrollTo(0, 1000)'')" "fails e (Sleep 2)"
  | "\<not> start_fails e" "\<not> fails e (Launch Chromium [])" "\<not> fails e New_page"
      "\<not> fails e (Goto ''http://localhost:8000'')"
      "\<not> fails e (Evaluate ''window.scrollTo(0, 1000)'')" "\<not> fails e (Sleep 2)"
      "fails e (Screenshot ''verification.png'')"
  | "\<not> start_fails e" "\<not> fails e (Launch Chromium [])" "\<not> fails e New_page"
      "\<not> fails e (Goto ''http://localhost:8000'')"
      "\<not> fails e (Evaluate ''window.scrollTo(0, 1000)'')" "\<not> fails e (Sleep 2)"
      "\<not> fails e (Screenshot ''verification.png'')"
    by blast
  then show ?thesis
    by cases (simp_all add: script_defs call_defs)
qed

lemma reachable_fails [simp]: "fails reachable c = False" "start_fails reachable = False"
  by (simp_all add: reachable_def)

lemma unreachable_fails [simp]:
  "fails unreachable c = (c = Goto ''http://localhost:8000'')" "start_fails unreachable = False"
  by (simp_all add: unreachable_def)

subsection \<open>The calls issued\<close>

text \<open>
  Whatever raises, the calls issued by a run are an initial part of the script's one
  sequence: an exception cuts the sequence short and adds nothing to it.
\<close>

lemma verify_animation_trace_prefix:
  "prefix (trace (snd (verify_animation e fs)))
     [Launch Chromium [], New_page, Goto ''http://localhost:8000'', Wait_for_timeout 5000,
      Screenshot ''jules-scratch/verification/verification.png'', Close]"
  by (simp add: verify_animation_result)

lemma verify_trace_prefix:
  "prefix (trace (snd (verify e fs)))
     [Launch Chromium [], New_page, Goto ''http://localhost:8000'',
      Evaluate ''window.scrollTo(0, 1000)'', Sleep 2, Screenshot ''verification.png'', Close]"
  by (simp add: verify_result)

lemma verify_animation_trace_success:
  "fst (verify_animation e fs) = Inr () \<Longrightarrow>
   trace (snd (verify_animation e fs)) =
     [Launch Chromium [], New_page, Goto ''http://localhost:8000'', Wait_for_timeout 5000,
      Screenshot ''jules-scratch/verification/verification.png'', Close]"
  by (simp add: verify_animation_result split: if_splits)

lemma verify_trace_success:
  "fst (verify e fs) = Inr () \<Longrightarrow>
   trace (snd (verify e fs)) =
     [Launch Chromium [], New_page, Goto ''http://localhost:8000'',
      Evaluate ''window.scrollTo(0, 1000)'', Sleep 2, Screenshot ''verification.png'', Close]"
  by (simp add: verify_result split: if_splits)

lemma reachable_succeeds:
  "fst (verify_animation reachable fs) = Inr ()" "fst (verify reachable fs) = Inr ()"
  by (simp_all add: verify_animation_result verify_result)

text \<open>
  Claim C1, as stated: every run of either script performs exactly the sequence launch,
  new page, navigate, (scroll,) wait, screenshot, close. It fails for a run in which a
  call raises: with no server reachable the run stops at the navigation.
\<close>

theorem C1_counterexample:
  "trace (snd (verify_animation unreachable Map.empty)) \<noteq>
     [Launch Chromium [], New_page, Goto ''http://localhost:8000'', Wait_for_timeout 5000,
      Screenshot ''jules-scratch/verification/verification.png'', Close]
   \<and> trace (snd (verify unreachable Map.empty)) \<noteq>
     [Launch Chromium [], New_page, Goto ''http://localhost:8000'',
      Evaluate ''window.scrollTo(0, 1000)'', Sleep 2, Screenshot ''verification.png'', Close]"
  by (simp add: script_defs call_defs unreachable_def)

text \<open>
  Claim C1, amended: every run of either script that ends without an exception performs
  exactly the sequence launch, new page, navigate to the URL, (scroll, in \<^verbatim>\<open>verify.py\<close>,)
  wait, one screenshot to the output path, close, in that order and with no other call;
  every other run performs an initial part of that sequence, up to the call that raised.
\<close>

theorem C1_sequence:
  "(fst (verify_animation e fs) = Inr () \<longrightarrow>
      trace (snd (verify_animation e fs)) =
        [Launch Chromium [], New_page, Goto ''http://localhost:8000'', Wait_for_timeout 5000,
         Screenshot ''jules-scratch/verification/verification.png'', Close])
   \<and> (fst (verify e fs) = Inr () \<longrightarrow>
      trace (snd (verify e fs)) =
        [Launch Chromium [], New_page, Goto ''http://localhost:8000'',
         Evaluate ''window.scrollTo(0, 1000)'', Sleep 2, Screenshot ''verification.png'', Close])
   \<and> prefix (trace (snd (verify_animation e fs)))
        [Launch Chromium [], New_page, Goto ''http://localhost:8000'', Wait_for_timeout 5000,
         Screenshot ''jules-scratch/verification/verification.png'', Close]
   \<and> prefix (trace (snd (verify e fs)))
        [Launch Chromium [], New_page, Goto ''http://localhost:8000'',
         Evaluate ''window.scrollTo(0, 1000)'', Sleep 2, Screenshot ''verification.png'', Close]
   \<and> (\<forall>c. fst (verify_animation e fs) = Inl (Error c) \<longrightarrow>
          trace (snd (verify_animation e fs)) \<noteq> []
        \<and> last (trace (snd (verify_animation e fs))) = c)
   \<and> (\<forall>c. fst (verify e fs) = Inl (Error c) \<longrightarrow>
          trace (snd (verify e fs)) \<noteq> [] \<and> last (trace (snd (verify e fs))) = c)"
proof -
  have sync_stop:
    "trace (snd (verify_animation e fs)) \<noteq> [] \<and> last (trace (snd (verify_animation e fs))) = c"
    if "fst (verify_animation e fs) = Inl (Error c)" for c
    using that by (simp add: verify_animation_result split: if_splits)
  have async_stop:
    "trace (snd (verify e fs)) \<noteq> [] \<and> last (trace (snd (verify e fs))) = c"
    if "fst (verify e fs) = Inl (Error c)" for c
    using that by (simp add: verify_result split: if_splits)
  show ?thesis
    using verify_animation_trace_success [of e fs] verify_trace_success [of e fs]
      verify_animation_trace_prefix [of e fs] verify_trace_prefix [of e fs]
      sync_stop async_stop
    by blast
qed

theorem C1_sequence_witness:
  "fst (verify_animation reachable Map.empty) = Inr ()
   \<and> fst (verify reachable Map.empty) = Inr ()
   \<and> trace (snd (verify_animation reachable Map.empty)) =
        [Launch Chromium [], New_page, Goto ''http://localhost:8000'', Wait_for_timeout 5000,
         Screenshot ''jules-scratch/verification/verification.png'', Close]
   \<and> trace (snd (verify reachable Map.empty)) =
        [Launch Chromium [], New_page, Goto ''http://localhost:8000'',
         Evaluate ''window.scrollTo(0, 1000)'', Sleep 2, Screenshot ''verification.png'', Close]
   \<and> fst (verify_animation unreachable Map.empty) = Inl (Error (Goto ''http://localhost:8000''))
   \<and> fst (verify unreachable Map.empty) = Inl (Error (Goto ''http://localhost:8000''))
   \<and> last (trace (snd (verify_animation unreachable Map.empty))) = Goto ''http://localhost:8000''
   \<and> last (trace (snd (verify unreachable Map.empty))) = Goto ''http://localhost:8000''"
proof -
  have raised:
    "fst (verify_animation unreachable Map.empty) = Inl (Error (Goto ''http://localhost:8000''))"
    "fst (verify unreachable Map.empty) = Inl (Error (Goto ''http://localhost:8000''))"
    by (simp_all add: verify_animation_result verify_result)
  show ?thesis
    using C1_sequence [of reachable Map.empty] reachable_succeeds [of Map.empty]
      C1_sequence [of unreachable Map.empty] raised
    by blast
qed

subsection \<open>Release of the browser\<close>

text \<open>
  Claim C2: in every run of either script the browser process is released on every exit
  path, success or failure. In particular, when navigation raises, the body is left
  with the browser still alive and \<^verbatim>\<open>browser.close()\<close> not issued, and the browser
  is released all the same before the process ends: the \<^verbatim>\<open>with\<close> block stops the
  driver, and the browser with it.
\<close>

theorem C2_browser_released:
  "browsers (snd (verify_animation e fs)) = [] \<and> \<not> driver (snd (verify_animation e fs))
   \<and> browsers (snd (verify e fs)) = [] \<and> \<not> driver (snd (verify e fs))
   \<and> (\<not> start_fails e \<and> \<not> fails e (Launch Chromium []) \<and> \<not> fails e New_page
        \<and> fails e (Goto ''http://localhost:8000'') \<longrightarrow>
          browsers (snd (run e Playwright ((boot fs)\<lparr>driver := True\<rparr>))) = [0]
        \<and> Close \<notin> set (trace (snd (verify_animation e fs)))
        \<and> Close \<notin> set (trace (snd (verify e fs))))"
proof -
  have released:
    "browsers (snd (verify_animation e fs)) = [] \<and> \<not> driver (snd (verify_animation e fs))
     \<and> browsers (snd (verify e fs)) = [] \<and> \<not> driver (snd (verify e fs))"
    by (simp add: verify_animation_result verify_result)
  have alive: "browsers (snd (run e Playwright ((boot fs)\<lparr>driver := True\<rparr>))) = [0]"
    if "\<not> fails e (Launch Chromium [])" "\<not> fails e New_page"
       "fails e (Goto ''http://localhost:8000'')"
    using that by (simp add: run_def boot_def call_defs)
  have not_closed:
    "Close \<notin> set (trace (snd (verify_animation e fs)))
     \<and> Close \<notin> set (trace (snd (verify e fs)))"
    if "fails e (Goto ''http://localhost:8000'')"
    using that by (simp add: verify_animation_result verify_result)
  show ?thesis
    using released alive not_closed by blast
qed

theorem C2_browser_released_witness:
  "\<not> start_fails unreachable \<and> \<not> fails unreachable (Launch Chromium [])
   \<and> \<not> fails unreachable New_page \<and> fails unreachable (Goto ''http://localhost:8000'')
   \<and> browsers (snd (run unreachable Playwright ((boot Map.empty)\<lparr>driver := True\<rparr>))) = [0]
   \<and> Close \<notin> set (trace (snd (verify_animation unreachable Map.empty)))
   \<and> Close \<notin> set (trace (snd (verify unreachable Map.empty)))
   \<and> browsers (snd (verify_animation unreachable Map.empty)) = []
   \<and> browsers (snd (verify unreachable Map.empty)) = []"
  using C2_browser_released [of unreachable Map.empty]
  by simp

subsection \<open>Navigation failure\<close>

text \<open>
  Claim C3: in every run of either script in which the navigation is attempted and
  raises, the run aborts: the error of \<^verbatim>\<open>page.goto\<close> is the outcome of the run, uncaught;
  the process ends with a non-zero status; and the navigation is the last call issued,
  issued once, so nothing is retried. Whenever the navigation would raise, the status is
  non-zero.
\<close>

theorem C3_navigation_failure_aborts:
  "(fails e (Goto ''http://localhost:8000'')
      \<and> Goto ''http://localhost:8000'' \<in> set (trace (snd (verify_animation e fs))) \<longrightarrow>
        fst (verify_animation e fs) = Inl (Error (Goto ''http://localhost:8000''))
      \<and> exit_status (fst (verify_animation e fs)) = 1
      \<and> trace (snd (verify_animation e fs)) =
          [Launch Chromium [], New_page, Goto ''http://localhost:8000''])
   \<and> (fails e (Goto ''http://localhost:8000'')
      \<and> Goto ''http://localhost:8000'' \<in> set (trace (snd (verify e fs))) \<longrightarrow>
        fst (verify e fs) = Inl (Error (Goto ''http://localhost:8000''))
      \<and> exit_status (fst (verify e fs)) = 1
      \<and> trace (snd (verify e fs)) =
          [Launch Chromium [], New_page, Goto ''http://localhost:8000''])
   \<and> (fails e (Goto ''http://localhost:8000'') \<longrightarrow>
        exit_status (fst (verify_animation e fs)) \<noteq> 0
      \<and> exit_status (fst (verify e fs)) \<noteq> 0)"
proof -
  have sync:
    "fst (verify_animation e fs) = Inl (Error (Goto ''http://localhost:8000''))
     \<and> exit_status (fst (verify_animation e fs)) = 1
     \<and> trace (snd (verify_animation e fs)) =
          [Launch Chromium [], New_page, Goto ''http://localhost:8000'']"
    if "fails e (Goto ''http://localhost:8000'')"
       "Goto ''http://localhost:8000'' \<in> set (trace (snd (verify_animation e fs)))"
    using that by (simp add: verify_animation_result exit_status_def split: if_splits)
  have async:
    "fst (verify e fs) = Inl (Error (Goto ''http://localhost:8000''))
     \<and> exit_status (fst (verify e fs)) = 1
     \<and> trace (snd (verify e fs)) =
          [Launch Chromium [], New_page, Goto ''http://localhost:8000'']"
    if "fails e (Goto ''http://localhost:8000'')"
       "Goto ''http://localhost:8000'' \<in> set (trace (snd (verify e fs)))"
    using that by (simp add: verify_result exit_status_def split: if_splits)
  have status:
    "exit_status (fst (verify_animation e fs)) \<noteq> 0 \<and> exit_status (fst (verify e fs)) \<noteq> 0"
    if "fails e (Goto ''http://localhost:8000'')"
    using that by (simp add: verify_animation_result verify_result exit_status_def)
  show ?thesis
    using sync async status by blast
qed

theorem C3_navigation_failure_aborts_witness:
  "fails unreachable (Goto ''http://localhost:8000'')
   \<and> Goto ''http://localhost:8000'' \<in> set (trace (snd (verify_animation unreachable Map.empty)))
   \<and> Goto ''http://localhost:8000'' \<in> set (trace (snd (verify unreachable Map.empty)))
   \<and> fst (verify_animation unreachable Map.empty) = Inl (Error (Goto ''http://localhost:8000''))
   \<and> fst (verify unreachable Map.empty) = Inl (Error (Goto ''http://localhost:8000''))
   \<and> exit_status (fst (verify_animation unreachable Map.empty)) = 1
   \<and> exit_status (fst (verify unreachable Map.empty)) = 1"
proof -
  have h: "fails unreachable (Goto ''http://localhost:8000'')"
    "Goto ''http://localhost:8000'' \<in> set (trace (snd (verify_animation unreachable Map.empty)))"
    "Goto ''http://localhost:8000'' \<in> set (trace (snd (verify unreachable Map.empty)))"
    by (simp_all add: verify_animation_result verify_result)
  show ?thesis
    using h C3_navigation_failure_aborts [of unreachable Map.empty] by blast
qed

text \<open>
  Claim C4: in every run of either script in which navigation raises, the screenshot
  call is never issued and the filesystem is left as the run found it: no output file
  is produced.
\<close>

theorem C4_no_output_on_navigation_failure:
  "fails e (Goto ''http://localhost:8000'') \<Longrightarrow>
   (\<forall>p. Screenshot p \<notin> set (trace (snd (verify_animation e fs))))
   \<and> files (snd (verify_animation e fs)) = fs
   \<and> (\<forall>p. Screenshot p \<notin> set (trace (snd (verify e fs))))
   \<and> files (snd (verify e fs)) = fs"
  by (simp add: verify_animation_result verify_result)

theorem C4_no_output_on_navigation_failure_witness:
  "fails unreachable (Goto ''http://localhost:8000'')
   \<and> Screenshot ''jules-scratch/verification/verification.png''
        \<notin> set (trace (snd (verify_animation unreachable Map.empty)))
   \<and> files (snd (verify_animation unreachable Map.empty)) = Map.empty
   \<and> Screenshot ''verification.png'' \<notin> set (trace (snd (verify unreachable Map.empty)))
   \<and> files (snd (verify unreachable Map.empty)) = Map.empty"
proof -
  have h: "fails unreachable (Goto ''http://localhost:8000'')"
    by simp
  show ?thesis
    using h C4_no_output_on_navigation_failure [OF h, of Map.empty] by blast
qed

subsection \<open>Configuration\<close>

text \<open>
  Claim C5: neither script reads the command line or the environment variables. In
  every run the only URL navigated to is the constant \<^verbatim>\<open>http://localhost:8000\<close> and the
  only path a screenshot is written to is the script's fixed relative path; a run with
  another command line and other environment variables has the same outcome, call for
  call and file for file.
\<close>

theorem C5_hardcoded_configuration:
  "(\<forall>u. Goto u \<in> set (trace (snd (verify_animation e fs))) \<longrightarrow> u = ''http://localhost:8000'')
   \<and> (\<forall>p. Screenshot p \<in> set (trace (snd (verify_animation e fs))) \<longrightarrow>
          p = ''jules-scratch/verification/verification.png'')
   \<and> (\<forall>u. Goto u \<in> set (trace (snd (verify e fs))) \<longrightarrow> u = ''http://localhost:8000'')
   \<and> (\<forall>p. Screenshot p \<in> set (trace (snd (verify e fs))) \<longrightarrow> p = ''verification.png'')
   \<and> verify_animation (e\<lparr>argv := a, environ := v\<rparr>) fs = verify_animation e fs
   \<and> verify (e\<lparr>argv := a, environ := v\<rparr>) fs = verify e fs"
proof -
  have sync:
    "(\<forall>u. Goto u \<in> set (trace (snd (verify_animation e fs))) \<longrightarrow> u = ''http://localhost:8000'')
     \<and> (\<forall>p. Screenshot p \<in> set (trace (snd (verify_animation e fs))) \<longrightarrow>
          p = ''jules-scratch/verification/verification.png'')"
    by (simp add: verify_animation_result)
  have async:
    "(\<forall>u. Goto u \<in> set (trace (snd (verify e fs))) \<longrightarrow> u = ''http://localhost:8000'')
     \<and> (\<forall>p. Screenshot p \<in> set (trace (snd (verify e fs))) \<longrightarrow> p = ''verification.png'')"
    by (simp add: verify_result)
  have unread:
    "verify_animation (e\<lparr>argv := a, environ := v\<rparr>) fs = verify_animation e fs"
    "verify (e\<lparr>argv := a, environ := v\<rparr>) fs = verify e fs"
    by (simp_all add: verify_animation_result verify_result)
  show ?thesis
    using sync async unread by blast
qed

theorem C5_hardcoded_configuration_witness:
  "Goto ''http://localhost:8000'' \<in> set (trace (snd (verify_animation reachable Map.empty)))
   \<and> Screenshot ''jules-scratch/verification/verification.png''
        \<in> set (trace (snd (verify_animation reachable Map.empty)))
   \<and> Goto ''http://localhost:8000'' \<in> set (trace (snd (verify reachable Map.empty)))
   \<and> Screenshot ''verification.png'' \<in> set (trace (snd (verify reachable Map.empty)))
   \<and> Goto ''http://example.org'' \<notin> set (trace (snd (verify_animation reachable Map.empty)))
   \<and> verify_animation
        (reachable\<lparr>argv := [''--url'', ''http://example.org''],
                   environ := [''URL'' \<mapsto> ''http://example.org'']\<rparr>) Map.empty
      = verify_animation reachable Map.empty
   \<and> verify
        (reachable\<lparr>argv := [''--url'', ''http://example.org''],
                   environ := [''URL'' \<mapsto> ''http://example.org'']\<rparr>) Map.empty
      = verify reachable Map.empty"
proof -
  have h:
    "Goto ''http://localhost:8000'' \<in> set (trace (snd (verify_animation reachable Map.empty)))"
    "Screenshot ''jules-scratch/verification/verification.png''
       \<in> set (trace (snd (verify_animation reachable Map.empty)))"
    "Goto ''http://localhost:8000'' \<in> set (trace (snd (verify reachable Map.empty)))"
    "Screenshot ''verification.png'' \<in> set (trace (snd (verify reachable Map.empty)))"
    by (simp_all add: verify_animation_result verify_result)
  show ?thesis
    using h C5_hardcoded_configuration
      [where e = reachable and fs = Map.empty
         and a = "[''--url'', ''http://example.org'']"
         and v = "[''URL'' \<mapsto> ''http://example.org'']"]
    by blast
qed

subsection \<open>The pause and the capture\<close>

text \<open>
  Claim C6: in every run of either script the pause before the capture is a single
  delay of fixed duration: the run issues at most one delaying call, of 5 seconds in
  \<^verbatim>\<open>verify_animation.py\<close> and of 2 seconds in \<^verbatim>\<open>verify.py\<close>; when the screenshot is
  reached, exactly that one delay has been made, directly before it, with nothing
  polled or awaited in between; and the captured page has settled for just that long.
\<close>

theorem C6_single_fixed_delay:
  "(List.map_filter delay_ms (trace (snd (verify_animation e fs))) = []
      \<or> List.map_filter delay_ms (trace (snd (verify_animation e fs))) = [5 * 1000])
   \<and> (List.map_filter delay_ms (trace (snd (verify e fs))) = []
      \<or> List.map_filter delay_ms (trace (snd (verify e fs))) = [2 * 1000])
   \<and> (Screenshot ''jules-scratch/verification/verification.png''
        \<in> set (trace (snd (verify_animation e fs))) \<longrightarrow>
        List.map_filter delay_ms (trace (snd (verify_animation e fs))) = [5 * 1000]
      \<and> prefix [Launch Chromium [], New_page, Goto ''http://localhost:8000'',
                 Wait_for_timeout 5000,
                 Screenshot ''jules-scratch/verification/verification.png'']
          (trace (snd (verify_animation e fs))))
   \<and> (Screenshot ''verification.png'' \<in> set (trace (snd (verify e fs))) \<longrightarrow>
        List.map_filter delay_ms (trace (snd (verify e fs))) = [2 * 1000]
      \<and> prefix [Launch Chromium [], New_page, Goto ''http://localhost:8000'',
                 Evaluate ''window.scrollTo(0, 1000)'', Sleep 2,
                 Screenshot ''verification.png'']
          (trace (snd (verify e fs))))
   \<and> (fst (verify_animation e fs) = Inr () \<longrightarrow>
        (\<exists>s. files (snd (verify_animation e fs))
                ''jules-scratch/verification/verification.png'' = Some (Png s)
             \<and> settled_ms s = 5 * 1000))
   \<and> (fst (verify e fs) = Inr () \<longrightarrow>
        (\<exists>s. files (snd (verify e fs)) ''verification.png'' = Some (Png s)
             \<and> settled_ms s = 2 * 1000))"
proof -
  have sync_delays:
    "List.map_filter delay_ms (trace (snd (verify_animation e fs))) = []
     \<or> List.map_filter delay_ms (trace (snd (verify_animation e fs))) = [5 * 1000]"
    by (simp add: verify_animation_result)
  have async_delays:
    "List.map_filter delay_ms (trace (snd (verify e fs))) = []
     \<or> List.map_filter delay_ms (trace (snd (verify e fs))) = [2 * 1000]"
    by (simp add: verify_result)
  have sync_capture:
    "List.map_filter delay_ms (trace (snd (verify_animation e fs))) = [5 * 1000]
     \<and> prefix [Launch Chromium [], New_page, Goto ''http://localhost:8000'',
                Wait_for_timeout 5000,
                Screenshot ''jules-scratch/verification/verification.png'']
         (trace (snd (verify_animation e fs)))"
    if "Screenshot ''jules-scratch/verification/verification.png''
          \<in> set (trace (snd (verify_animation e fs)))"
    using that by (simp add: verify_animation_result split: if_splits)
  have async_capture:
    "List.map_filter delay_ms (trace (snd (verify e fs))) = [2 * 1000]
     \<and> prefix [Launch Chromium [], New_page, Goto ''http://localhost:8000'',
                Evaluate ''window.scrollTo(0, 1000)'', Sleep 2,
                Screenshot ''verification.png'']
         (trace (snd (verify e fs)))"
    if "Screenshot ''verification.png'' \<in> set (trace (snd (verify e fs)))"
    using that by (simp add: verify_result split: if_splits)
  have sync_image:
    "\<exists>s. files (snd (verify_animation e fs))
            ''jules-scratch/verification/verification.png'' = Some (Png s)
         \<and> settled_ms s = 5 * 1000"
    if "fst (verify_animation e fs) = Inr ()"
    using that by (simp add: verify_animation_result split: if_splits)
  have async_image:
    "\<exists>s. files (snd (verify e fs)) ''verification.png'' = Some (Png s)
         \<and> settled_ms s = 2 * 1000"
    if "fst (verify e fs) = Inr ()"
    using that by (simp add: verify_result split: if_splits)
  show ?thesis
    using sync_delays async_delays sync_capture async_capture sync_image async_image
    by blast
qed

theorem C6_single_fixed_delay_witness:
  "Screenshot ''jules-scratch/verification/verification.png''
     \<in> set (trace (snd (verify_animation reachable Map.empty)))
   \<and> Screenshot ''verification.png'' \<in> set (trace (snd (verify reachable Map.empty)))
   \<and> fst (verify_animation reachable Map.empty) = Inr ()
   \<and> fst (verify reachable Map.empty) = Inr ()
   \<and> List.map_filter delay_ms (trace (snd (verify_animation reachable Map.empty))) = [5 * 1000]
   \<and> List.map_filter delay_ms (trace (snd (verify reachable Map.empty))) = [2 * 1000]
   \<and> (\<exists>s. files (snd (verify_animation reachable Map.empty))
             ''jules-scratch/verification/verification.png'' = Some (Png s)
          \<and> settled_ms s = 5 * 1000)
   \<and> (\<exists>s. files (snd (verify reachable Map.empty)) ''verification.png'' = Some (Png s)
          \<and> settled_ms s = 2 * 1000)"
proof -
  have h:
    "Screenshot ''jules-scratch/verification/verification.png''
       \<in> set (trace (snd (verify_animation reachable Map.empty)))"
    "Screenshot ''verification.png'' \<in> set (trace (snd (verify reachable Map.empty)))"
    by (simp_all add: verify_animation_result verify_result)
  show ?thesis
    using h reachable_succeeds [of Map.empty] C6_single_fixed_delay [of reachable Map.empty]
    by blast
qed

text \<open>
  Claim C7: in every run of \<^verbatim>\<open>verify.py\<close> that reaches the screenshot, the page has been
  told to scroll before the delay and the delay has been made before the screenshot;
  and when the screenshot is taken, the image written is of the page state after the
  scroll instruction (and after the delay), never of the state before it.
\<close>

theorem C7_scroll_before_capture:
  "(Screenshot ''verification.png'' \<in> set (trace (snd (verify e fs))) \<longrightarrow>
      prefix [Launch Chromium [], New_page, Goto ''http://localhost:8000'',
              Evaluate ''window.scrollTo(0, 1000)'', Sleep 2, Screenshot ''verification.png'']
        (trace (snd (verify e fs))))
   \<and> (Screenshot ''verification.png'' \<in> set (trace (snd (verify e fs)))
        \<and> \<not> fails e (Screenshot ''verification.png'') \<longrightarrow>
      (\<exists>s. files (snd (verify e fs)) ''verification.png'' = Some (Png s)
           \<and> scripts s = [''window.scrollTo(0, 1000)'']
           \<and> settled_ms s = 2000))"
proof -
  have order:
    "prefix [Launch Chromium [], New_page, Goto ''http://localhost:8000'',
             Evaluate ''window.scrollTo(0, 1000)'', Sleep 2, Screenshot ''verification.png'']
       (trace (snd (verify e fs)))"
    if "Screenshot ''verification.png'' \<in> set (trace (snd (verify e fs)))"
    using that by (simp add: verify_result split: if_splits)
  have captured:
    "\<exists>s. files (snd (verify e fs)) ''verification.png'' = Some (Png s)
         \<and> scripts s = [''window.scrollTo(0, 1000)'']
         \<and> settled_ms s = 2000"
    if "Screenshot ''verification.png'' \<in> set (trace (snd (verify e fs)))"
       "\<not> fails e (Screenshot ''verification.png'')"
    using that by (simp add: verify_result split: if_splits)
  show ?thesis
    using order captured by blast
qed

theorem C7_scroll_before_capture_witness:
  "Screenshot ''verification.png'' \<in> set (trace (snd (verify reachable Map.empty)))
   \<and> \<not> fails reachable (Screenshot ''verification.png'')
   \<and> prefix [Launch Chromium [], New_page, Goto ''http://localhost:8000'',
             Evaluate ''window.scrollTo(0, 1000)'', Sleep 2, Screenshot ''verification.png'']
        (trace (snd (verify reachable Map.empty)))
   \<and> (\<exists>s. files (snd (verify reachable Map.empty)) ''verification.png'' = Some (Png s)
          \<and> scripts s = [''window.scrollTo(0, 1000)'']
          \<and> settled_ms s = 2000)"
proof -
  have h: "Screenshot ''verification.png'' \<in> set (trace (snd (verify reachable Map.empty)))"
    "\<not> fails reachable (Screenshot ''verification.png'')"
    by (simp_all add: verify_result)
  show ?thesis
    using h C7_scroll_before_capture [of reachable Map.empty] by blast
qed

subsection \<open>The output file\<close>

text \<open>
  Claim C8: each successful run of either script writes exactly one file, at its output
  path: after the run that path holds the image this run captured, whatever it held
  before (an existing file is overwritten, not kept), and every other path is as it
  was. Hence a second successful run on the files left by the first replaces the first
  run's output by its own and leaves the same set of files; with the same inputs it
  leaves the same files.
\<close>

theorem C8_one_file_overwritten:
  "(fst (verify_animation e fs) = Inr () \<longrightarrow>
      files (snd (verify_animation e fs)) =
        fs(''jules-scratch/verification/verification.png'' \<mapsto>
           Png \<lparr>owner = 0, location = Some ''http://localhost:8000'',
                document = serves e ''http://localhost:8000'', scripts = [],
                settled_ms = 5000\<rparr>)
      \<and> files (snd (verify_animation e (files (snd (verify_animation e fs))))) =
          files (snd (verify_animation e fs))
      \<and> (fst (verify_animation e' (files (snd (verify_animation e fs)))) = Inr () \<longrightarrow>
            files (snd (verify_animation e' (files (snd (verify_animation e fs))))) =
              fs(''jules-scratch/verification/verification.png'' \<mapsto>
                 Png \<lparr>owner = 0, location = Some ''http://localhost:8000'',
                      document = serves e' ''http://localhost:8000'', scripts = [],
                      settled_ms = 5000\<rparr>)
          \<and> dom (files (snd (verify_animation e' (files (snd (verify_animation e fs)))))) =
            dom (files (snd (verify_animation e fs)))))
   \<and> (fst (verify e fs) = Inr () \<longrightarrow>
      files (snd (verify e fs)) =
        fs(''verification.png'' \<mapsto>
           Png \<lparr>owner = 0, location = Some ''http://localhost:8000'',
                document = serves e ''http://localhost:8000'',
                scripts = [''window.scrollTo(0, 1000)''], settled_ms = 2000\<rparr>)
      \<and> files (snd (verify e (files (snd (verify e fs))))) = files (snd (verify e fs))
      \<and> (fst (verify e' (files (snd (verify e fs)))) = Inr () \<longrightarrow>
            files (snd (verify e' (files (snd (verify e fs))))) =
              fs(''verification.png'' \<mapsto>
                 Png \<lparr>owner = 0, location = Some ''http://localhost:8000'',
                      document = serves e' ''http://localhost:8000'',
                      scripts = [''window.scrollTo(0, 1000)''], settled_ms = 2000\<rparr>)
          \<and> dom (files (snd (verify e' (files (snd (verify e fs)))))) =
            dom (files (snd (verify e fs)))))"
proof -
  have sync_write:
    "files (snd (verify_animation e fs)) =
       fs(''jules-scratch/verification/verification.png'' \<mapsto>
          Png \<lparr>owner = 0, location = Some ''http://localhost:8000'',
               document = serves e ''http://localhost:8000'', scripts = [],
               settled_ms = 5000\<rparr>)"
    if "fst (verify_animation e fs) = Inr ()" for e fs
    using that by (simp add: verify_animation_result split: if_splits)
  have sync_again:
    "fst (verify_animation e fs') = Inr ()" if "fst (verify_animation e fs) = Inr ()" for fs'
    using that by (simp add: verify_animation_result split: if_splits)
  have async_write:
    "files (snd (verify e fs)) =
       fs(''verification.png'' \<mapsto>
          Png \<lparr>owner = 0, location = Some ''http://localhost:8000'',
               document = serves e ''http://localhost:8000'',
               scripts = [''window.scrollTo(0, 1000)''], settled_ms = 2000\<rparr>)"
    if "fst (verify e fs) = Inr ()" for e fs
    using that by (simp add: verify_result split: if_splits)
  have async_again:
    "fst (verify e fs') = Inr ()" if "fst (verify e fs) = Inr ()" for fs'
    using that by (simp add: verify_result split: if_splits)
  have sync:
    "files (snd (verify_animation e fs)) =
        fs(''jules-scratch/verification/verification.png'' \<mapsto>
           Png \<lparr>owner = 0, location = Some ''http://localhost:8000'',
                document = serves e ''http://localhost:8000'', scripts = [],
                settled_ms = 5000\<rparr>)
      \<and> files (snd (verify_animation e (files (snd (verify_animation e fs))))) =
          files (snd (verify_animation e fs))
      \<and> (fst (verify_animation e' (files (snd (verify_animation e fs)))) = Inr () \<longrightarrow>
            files (snd (verify_animation e' (files (snd (verify_animation e fs))))) =
              fs(''jules-scratch/verification/verification.png'' \<mapsto>
                 Png \<lparr>owner = 0, location = Some ''http://localhost:8000'',
                      document = serves e' ''http://localhost:8000'', scripts = [],
                      settled_ms = 5000\<rparr>)
          \<and> dom (files (snd (verify_animation e' (files (snd (verify_animation e fs)))))) =
            dom (files (snd (verify_animation e fs))))"
    if ok: "fst (verify_animation e fs) = Inr ()"
  proof -
    have same: "files (snd (verify_animation e (files (snd (verify_animation e fs))))) =
                files (snd (verify_animation e fs))"
      using sync_write [OF ok] sync_write [OF sync_again [OF ok]] by simp
    have other:
      "files (snd (verify_animation e' (files (snd (verify_animation e fs))))) =
         fs(''jules-scratch/verification/verification.png'' \<mapsto>
            Png \<lparr>owner = 0, location = Some ''http://localhost:8000'',
                 document = serves e' ''http://localhost:8000'', scripts = [],
                 settled_ms = 5000\<rparr>)
       \<and> dom (files (snd (verify_animation e' (files (snd (verify_animation e fs)))))) =
         dom (files (snd (verify_animation e fs)))"
      if ok': "fst (verify_animation e' (files (snd (verify_animation e fs)))) = Inr ()"
      using sync_write [OF ok] sync_write [OF ok'] by simp
    show ?thesis
      using sync_write [OF ok] same other by blast
  qed
  have async:
    "files (snd (verify e fs)) =
        fs(''verification.png'' \<mapsto>
           Png \<lparr>owner = 0, location = Some ''http://localhost:8000'',
                document = serves e ''http://localhost:8000'',
                scripts = [''window.scrollTo(0, 1000)''], settled_ms = 2000\<rparr>)
      \<and> files (snd (verify e (files (snd (verify e fs))))) = files (snd (verify e fs))
      \<and> (fst (verify e' (files (snd (verify e fs)))) = Inr () \<longrightarrow>
            files (snd (verify e' (files (snd (verify e fs))))) =
              fs(''verification.png'' \<mapsto>
                 Png \<lparr>owner = 0, location = Some ''http://localhost:8000'',
                      document = serves e' ''http://localhost:8000'',
                      scripts = [''window.scrollTo(0, 1000)''], settled_ms = 2000\<rparr>)
          \<and> dom (files (snd (verify e' (files (snd (verify e fs)))))) =
            dom (files (snd (verify e fs))))"
    if ok: "fst (verify e fs) = Inr ()"
  proof -
    have same: "files (snd (verify e (files (snd (verify e fs))))) = files (snd (verify e fs))"
      using async_write [OF ok] async_write [OF async_again [OF ok]] by simp
    have other:
      "files (snd (verify e' (files (snd (verify e fs))))) =
         fs(''verification.png'' \<mapsto>
            Png \<lparr>owner = 0, location = Some ''http://localhost:8000'',
                 document = serves e' ''http://localhost:8000'',
                 scripts = [''window.scrollTo(0, 1000)''], settled_ms = 2000\<rparr>)
       \<and> dom (files (snd (verify e' (files (snd (verify e fs)))))) =
         dom (files (snd (verify e fs)))"
      if ok': "fst (verify e' (files (snd (verify e fs)))) = Inr ()"
      using async_write [OF ok] async_write [OF ok'] by simp
    show ?thesis
      using async_write [OF ok] same other by blast
  qed
  show ?thesis
    using sync async by blast
qed

text \<open>
  The witness starts from a filesystem that holds a stale file at each output path:
  each run replaces the stale file by its own capture, the second run replaces the
  first run's capture by its own, and the unrelated file stays.
\<close>

theorem C8_one_file_overwritten_witness:
  "fst (verify_animation reachable leftover) = Inr ()
   \<and> fst (verify_animation other_server (files (snd (verify_animation reachable leftover)))) = Inr ()
   \<and> fst (verify reachable leftover) = Inr ()
   \<and> fst (verify other_server (files (snd (verify reachable leftover)))) = Inr ()
   \<and> leftover ''jules-scratch/verification/verification.png'' = Some stale
   \<and> leftover ''verification.png'' = Some stale
   \<and> files (snd (verify_animation reachable leftover))
        ''jules-scratch/verification/verification.png'' =
       Some (Png \<lparr>owner = 0, location = Some ''http://localhost:8000'', document = ''<html>'',
                  scripts = [], settled_ms = 5000\<rparr>)
   \<and> files (snd (verify_animation reachable leftover))
        ''jules-scratch/verification/verification.png'' \<noteq> Some stale
   \<and> files (snd (verify_animation reachable leftover)) ''other.png'' = Some stale
   \<and> files (snd (verify_animation other_server (files (snd (verify_animation reachable leftover)))))
        ''jules-scratch/verification/verification.png'' =
       Some (Png \<lparr>owner = 0, location = Some ''http://localhost:8000'',
                  document = ''<p>other</p>'', scripts = [], settled_ms = 5000\<rparr>)
   \<and> dom (files (snd (verify_animation other_server
                        (files (snd (verify_animation reachable leftover)))))) =
       dom (files (snd (verify_animation reachable leftover)))
   \<and> dom (files (snd (verify_animation reachable leftover))) = dom leftover
   \<and> files (snd (verify reachable leftover)) ''verification.png'' =
       Some (Png \<lparr>owner = 0, location = Some ''http://localhost:8000'', document = ''<html>'',
                  scripts = [''window.scrollTo(0, 1000)''], settled_ms = 2000\<rparr>)
   \<and> files (snd (verify reachable leftover)) ''verification.png'' \<noteq> Some stale
   \<and> files (snd (verify other_server (files (snd (verify reachable leftover)))))
        ''verification.png'' =
       Some (Png \<lparr>owner = 0, location = Some ''http://localhost:8000'',
                  document = ''<p>other</p>'',
                  scripts = [''window.scrollTo(0, 1000)''], settled_ms = 2000\<rparr>)
   \<and> dom (files (snd (verify other_server (files (snd (verify reachable leftover)))))) =
       dom (files (snd (verify reachable leftover)))"
proof -
  have ok:
    "fst (verify_animation reachable leftover) = Inr ()"
    "fst (verify_animation other_server (files (snd (verify_animation reachable leftover)))) = Inr ()"
    "fst (verify reachable leftover) = Inr ()"
    "fst (verify other_server (files (snd (verify reachable leftover)))) = Inr ()"
    by (simp_all add: verify_animation_result verify_result other_server_def)
  have served:
    "serves reachable ''http://localhost:8000'' = ''<html>''"
    "serves other_server ''http://localhost:8000'' = ''<p>other</p>''"
    by (simp_all add: reachable_def other_server_def)
  have written:
    "files (snd (verify_animation reachable leftover)) =
       leftover(''jules-scratch/verification/verification.png'' \<mapsto>
         Png \<lparr>owner = 0, location = Some ''http://localhost:8000'',
              document = serves reachable ''http://localhost:8000'',
              scripts = [], settled_ms = 5000\<rparr>)"
    "files (snd (verify_animation other_server (files (snd (verify_animation reachable leftover))))) =
       leftover(''jules-scratch/verification/verification.png'' \<mapsto>
         Png \<lparr>owner = 0, location = Some ''http://localhost:8000'',
              document = serves other_server ''http://localhost:8000'',
              scripts = [], settled_ms = 5000\<rparr>)"
    "files (snd (verify reachable leftover)) =
       leftover(''verification.png'' \<mapsto>
         Png \<lparr>owner = 0, location = Some ''http://localhost:8000'',
              document = serves reachable ''http://localhost:8000'',
              scripts = [''window.scrollTo(0, 1000)''], settled_ms = 2000\<rparr>)"
    "files (snd (verify other_server (files (snd (verify reachable leftover))))) =
       leftover(''verification.png'' \<mapsto>
         Png \<lparr>owner = 0, location = Some ''http://localhost:8000'',
              document = serves other_server ''http://localhost:8000'',
              scripts = [''window.scrollTo(0, 1000)''], settled_ms = 2000\<rparr>)"
    using ok
      C8_one_file_overwritten [where e = reachable and e' = other_server and fs = leftover]
    by blast+
  have doms:
    "dom (files (snd (verify_animation other_server
                        (files (snd (verify_animation reachable leftover)))))) =
     dom (files (snd (verify_animation reachable leftover)))"
    "dom (files (snd (verify other_server (files (snd (verify reachable leftover)))))) =
     dom (files (snd (verify reachable leftover)))"
    using ok
      C8_one_file_overwritten [where e = reachable and e' = other_server and fs = leftover]
    by blast+
  have held:
    "leftover ''jules-scratch/verification/verification.png'' = Some stale"
    "leftover ''verification.png'' = Some stale"
    "leftover ''other.png'' = Some stale"
    by (simp_all add: leftover_def)
  have present:
    "insert ''jules-scratch/verification/verification.png'' (dom leftover) = dom leftover"
    by (auto simp: leftover_def)
  have fresh:
    "Png \<lparr>owner = 0, location = Some ''http://localhost:8000'', document = ''<html>'',
          scripts = [], settled_ms = 5000\<rparr> \<noteq> stale"
    "Png \<lparr>owner = 0, location = Some ''http://localhost:8000'', document = ''<html>'',
          scripts = [''window.scrollTo(0, 1000)''], settled_ms = 2000\<rparr> \<noteq> stale"
    by (simp_all add: stale_def)
  have sync_first:
    "files (snd (verify_animation reachable leftover))
        ''jules-scratch/verification/verification.png'' =
       Some (Png \<lparr>owner = 0, location = Some ''http://localhost:8000'', document = ''<html>'',
                  scripts = [], settled_ms = 5000\<rparr>)"
    "files (snd (verify_animation reachable leftover)) ''other.png'' = Some stale"
    "dom (files (snd (verify_animation reachable leftover))) = dom leftover"
    by (simp_all add: written(1) served held present)
  have sync_stale_gone:
    "files (snd (verify_animation reachable leftover))
        ''jules-scratch/verification/verification.png'' \<noteq> Some stale"
    by (simp add: sync_first(1) fresh)
  have sync_second:
    "files (snd (verify_animation other_server (files (snd (verify_animation reachable leftover)))))
        ''jules-scratch/verification/verification.png'' =
       Some (Png \<lparr>owner = 0, location = Some ''http://localhost:8000'',
                  document = ''<p>other</p>'', scripts = [], settled_ms = 5000\<rparr>)"
    using written(2) served(2) by simp
  have async_first:
    "files (snd (verify reachable leftover)) ''verification.png'' =
       Some (Png \<lparr>owner = 0, location = Some ''http://localhost:8000'', document = ''<html>'',
                  scripts = [''window.scrollTo(0, 1000)''], settled_ms = 2000\<rparr>)"
    by (simp add: written(3) served)
  have async_stale_gone:
    "files (snd (verify reachable leftover)) ''verification.png'' \<noteq> Some stale"
    by (simp add: async_first fresh)
  have async_second:
    "files (snd (verify other_server (files (snd (verify reachable leftover)))))
        ''verification.png'' =
       Some (Png \<lparr>owner = 0, location = Some ''http://localhost:8000'',
                  document = ''<p>other</p>'',
                  scripts = [''window.scrollTo(0, 1000)''], settled_ms = 2000\<rparr>)"
    using written(4) served(2) by simp
  show ?thesis
    using ok held doms sync_first sync_stale_gone sync_second
      async_first async_stale_gone async_second
    by blast
qed

subsection \<open>Determinism of the calls issued\<close>




subsection \<open>The browser engine\<close>

text \<open>
  Claim C10: in every run of either script the only browser launched is Chromium, with
  no launch option given, hence headless; whenever the driver starts, that launch is
  the first call issued. The engine depends on nothing outside the script.
\<close>

theorem C10_chromium_default_launch:
  "(\<forall>bt kwargs. Launch bt kwargs \<in> set (trace (snd (verify_animation e fs))) \<longrightarrow>
       bt = Chromium \<and> kwargs = [] \<and> headless kwargs)
   \<and> (\<forall>bt kwargs. Launch bt kwargs \<in> set (trace (snd (verify e fs))) \<longrightarrow>
       bt = Chromium \<and> kwargs = [] \<and> headless kwargs)
   \<and> (\<not> start_fails e \<longrightarrow>
        prefix [Launch Chromium []] (trace (snd (verify_animation e fs)))
      \<and> prefix [Launch Chromium []] (trace (snd (verify e fs))))"
proof -
  have sync:
    "\<forall>bt kwargs. Launch bt kwargs \<in> set (trace (snd (verify_animation e fs))) \<longrightarrow>
       bt = Chromium \<and> kwargs = [] \<and> headless kwargs"
    by (simp add: verify_animation_result headless_def)
  have async:
    "\<forall>bt kwargs. Launch bt kwargs \<in> set (trace (snd (verify e fs))) \<longrightarrow>
       bt = Chromium \<and> kwargs = [] \<and> headless kwargs"
    by (simp add: verify_result headless_def)
  have first:
    "prefix [Launch Chromium []] (trace (snd (verify_animation e fs)))
     \<and> prefix [Launch Chromium []] (trace (snd (verify e fs)))"
    if "\<not> start_fails e"
    using that by (simp add: verify_animation_result verify_result)
  show ?thesis
    using sync async first by blast
qed

theorem C10_chromium_default_launch_witness:
  "\<not> start_fails unreachable
   \<and> Launch Chromium [] \<in> set (trace (snd (verify_animation unreachable Map.empty)))
   \<and> Launch Chromium [] \<in> set (trace (snd (verify unreachable Map.empty)))
   \<and> headless []
   \<and> prefix [Launch Chromium []] (trace (snd (verify_animation unreachable Map.empty)))
   \<and> prefix [Launch Chromium []] (trace (snd (verify unreachable Map.empty)))"
proof -
  have h: "\<not> start_fails unreachable"
    "Launch Chromium [] \<in> set (trace (snd (verify_animation unreachable Map.empty)))"
    "Launch Chromium [] \<in> set (trace (snd (verify unreachable Map.empty)))"
    by (simp_all add: verify_animation_result verify_result)
  show ?thesis
    using h C10_chromium_default_launch [of unreachable Map.empty] by blast
qed

end
